theory Spec2Isabelle
  imports Main
begin

section \<open>Python values used by the Zino 1 adapters\<close>

text \<open>
  Strings are lists of characters (code points below 256). The exceptions the code can
  raise are values of \<open>error\<close>; a function that can raise returns \<open>error + 'a\<close>.
\<close>

datatype error =
    ValueError
  | IndexError
  | KeyError
  | OverflowError
  | OSError
  | ProtocolError
  | ManagerException

text \<open>\<open>str.isspace\<close> on the code points below 256; \<open>str.strip()\<close> removes these.\<close>

definition isspace :: "char \<Rightarrow> bool" where
  "isspace c = (of_char c \<in> {9, 10, 11, 12, 13, 28, 29, 30, 31, 32, 133, 160 :: nat})"

definition strip :: "string \<Rightarrow> string" where
  "strip s = rev (dropWhile isspace (rev (dropWhile isspace s)))"

text \<open>
  \<open>s.split(sep, 1)\<close> for a one-character separator: the part before the first
  separator and the part after it, or the string alone when it has no separator.
\<close>

definition before_sep :: "char \<Rightarrow> string \<Rightarrow> string" where
  "before_sep sep s = takeWhile (\<lambda>c. c \<noteq> sep) s"

definition after_sep :: "char \<Rightarrow> string \<Rightarrow> string" where
  "after_sep sep s = tl (dropWhile (\<lambda>c. c \<noteq> sep) s)"

definition split1 :: "char \<Rightarrow> string \<Rightarrow> string list" where
  "split1 sep s = (if sep \<in> set s then [before_sep sep s, after_sep sep s] else [s])"

text \<open>\<open>s.split(sep)\<close> for a one-character separator: every occurrence splits.\<close>

fun split_all :: "char \<Rightarrow> string \<Rightarrow> string list" where
  "split_all sep [] = [[]]"
| "split_all sep (c # cs) =
     (if c = sep then [] # split_all sep cs
      else (case split_all sep cs of
              [] \<Rightarrow> [[c]]
            | p # ps \<Rightarrow> (c # p) # ps))"

text \<open>\<open>sep.join(parts)\<close>.\<close>

fun join :: "string \<Rightarrow> string list \<Rightarrow> string" where
  "join sep [] = []"
| "join sep [p] = p"
| "join sep (p # q # ps) = p @ sep @ join sep (q # ps)"

text \<open>\<open>s.startswith(" ")\<close>.\<close>

definition startswith_space :: "string \<Rightarrow> bool" where
  "startswith_space s = (case s of [] \<Rightarrow> False | c # _ \<Rightarrow> c = CHR '' '')"

text \<open>
  \<open>d[k] = v\<close> on a dictionary kept as an association list in insertion order: an
  existing key keeps its place and gets the new value, a new key goes to the end.
\<close>

fun dict_set :: "'k \<Rightarrow> 'v \<Rightarrow> ('k \<times> 'v) list \<Rightarrow> ('k \<times> 'v) list" where
  "dict_set k v [] = [(k, v)]"
| "dict_set k v ((k', v') # d) =
     (if k' = k then (k, v) # d else (k', v') # dict_set k v d)"

text \<open>\<open>d.get(k, default)\<close>.\<close>

definition dict_get :: "('k \<times> 'v) list \<Rightarrow> 'k \<Rightarrow> 'v \<Rightarrow> 'v" where
  "dict_get d k dflt = (case map_of d k of None \<Rightarrow> dflt | Some v \<Rightarrow> v)"


text \<open>
  \<open>int(s)\<close> on a string: surrounding whitespace is dropped (the characters CPython's
  integer parser accepts there), then an optional sign, then decimal digits in which
  single underscores may stand between two digits. Anything else, and a literal of more
  than 4300 digits (CPython's default limit), raises ValueError.
\<close>

definition int_space :: "char \<Rightarrow> bool" where
  "int_space c = (of_char c \<in> {9, 10, 11, 12, 13, 32, 133, 160 :: nat})"

definition is_digit :: "char \<Rightarrow> bool" where
  "is_digit c = (48 \<le> (of_char c :: nat) \<and> (of_char c :: nat) \<le> 57)"

definition digit_val :: "char \<Rightarrow> int" where
  "digit_val c = int (of_char c) - 48"

fun digits_ok :: "string \<Rightarrow> bool" where
  "digits_ok [] = False"
| "digits_ok [c] = is_digit c"
| "digits_ok (c # d # cs) =
     (is_digit c \<and> (if d = CHR ''_'' then cs \<noteq> [] \<and> digits_ok cs else digits_ok (d # cs)))"

definition digits_value :: "string \<Rightarrow> int" where
  "digits_value s = foldl (\<lambda>n c. 10 * n + digit_val c) 0 (filter is_digit s)"

definition py_int :: "string \<Rightarrow> error + int" where
  "py_int s =
     (let t = rev (dropWhile int_space (rev (dropWhile int_space s)));
          neg = (case t of [] \<Rightarrow> False | c # _ \<Rightarrow> c = CHR ''-'');
          body = (case t of [] \<Rightarrow> []
                  | c # r \<Rightarrow> if c = CHR ''-'' \<or> c = CHR ''+'' then r else t)
      in if digits_ok body \<and> length (filter is_digit body) \<le> 4300
         then Inr (if neg then - digits_value body else digits_value body)
         else Inl ValueError)"

text \<open>A value of an attribute dictionary after \<open>convert_values\<close>: a string or an integer.\<close>

datatype attr_value = StrVal string | IntVal int


section \<open>EventAdapter: the attribute parser\<close>

definition FIELD_MAP :: "(string \<times> string) list" where
  "FIELD_MAP =
     [(''state'', ''adm_state''),
      (''bfdAddr'', ''bfd_addr''),
      (''bfdDiscr'', ''bfd_discr''),
      (''bfdState'', ''bfd_state''),
      (''bfdIx'', ''bfd_ix''),
      (''bgpAS'', ''bgp_AS''),
      (''bgpOS'', ''bgp_OS''),
      (''ifindex'', ''if_index''),
      (''portstate'', ''port_state'')]"

text \<open>
  What the loop body of \<open>attrlist_to_attrdict\<close> does to the key \<open>k\<close> of a line
  before it stores the value: hyphens, rename table, \<open>strip\<close>.
\<close>

definition normalize_key :: "string \<Rightarrow> string" where
  "normalize_key k =
     (let k1 = (if CHR ''-'' \<in> set k then join ''_'' (split_all CHR ''-'' k) else k);
          k2 = dict_get FIELD_MAP k1 k1
      in strip k2)"

text \<open>
  The loop body: unpacking \<open>item.split(":", 1)\<close> into \<open>k, v\<close> raises ValueError
  unless there are two parts.
\<close>

definition attr_item :: "(string \<times> string) list \<Rightarrow> string \<Rightarrow> error + (string \<times> string) list" where
  "attr_item event_dict item =
     (case split1 CHR '':'' item of
        [k, v] \<Rightarrow> Inr (dict_set (normalize_key k) (strip v) event_dict)
      | _ \<Rightarrow> Inl ValueError)"

fun attr_loop :: "(string \<times> string) list \<Rightarrow> string list \<Rightarrow> error + (string \<times> string) list" where
  "attr_loop event_dict [] = Inr event_dict"
| "attr_loop event_dict (item # attrlist) =
     (case attr_item event_dict item of
        Inl e \<Rightarrow> Inl e
      | Inr d \<Rightarrow> attr_loop d attrlist)"

definition attrlist_to_attrdict :: "string list \<Rightarrow> error + (string \<times> string) list" where
  "attrlist_to_attrdict attrlist = attr_loop [] attrlist"


text \<open>The built-in \<open>int\<close> as a converter of attribute values.\<close>

definition int_converter :: "attr_value \<Rightarrow> error + attr_value" where
  "int_converter v =
     (case v of
        StrVal s \<Rightarrow> (case py_int s of Inl e \<Rightarrow> Inl e | Inr i \<Rightarrow> Inr (IntVal i))
      | IntVal i \<Rightarrow> Inr (IntVal i))"

definition FIELD_VALUE_CONVERTER_MAP :: "(string \<times> (attr_value \<Rightarrow> error + attr_value)) list" where
  "FIELD_VALUE_CONVERTER_MAP = [(''ac_down'', int_converter)]"

text \<open>
  \<open>convert_values\<close> walks the converter table and replaces the value of each field that
  is present; a converter that raises aborts the walk.
\<close>

fun convert_loop ::
  "(string \<times> (attr_value \<Rightarrow> error + attr_value)) list \<Rightarrow> (string \<times> attr_value) list
     \<Rightarrow> error + (string \<times> attr_value) list" where
  "convert_loop [] attrdict = Inr attrdict"
| "convert_loop ((field_name, function) # table) attrdict =
     (case map_of attrdict field_name of
        None \<Rightarrow> convert_loop table attrdict
      | Some x \<Rightarrow>
          (case function x of
             Inl e \<Rightarrow> Inl e
           | Inr v \<Rightarrow> convert_loop table (dict_set field_name v attrdict)))"

definition convert_values :: "(string \<times> string) list \<Rightarrow> error + (string \<times> attr_value) list" where
  "convert_values attrdict =
     convert_loop FIELD_VALUE_CONVERTER_MAP (map (\<lambda>(k, v). (k, StrVal v)) attrdict)"


section \<open>Timestamps\<close>

text \<open>
  \<open>datetime.fromtimestamp(timestamp, timezone.utc)\<close> for an integer timestamp: the
  calendar date and time of day in UTC. The date is the proleptic Gregorian date of the
  day number \<open>timestamp div 86400\<close> counted from 1970-01-01. Outside the years 1 to 9999
  the call raises: ValueError while the C library can still break the time down,
  OSError when it cannot, OverflowError when the timestamp does not fit a 64-bit
  \<open>time_t\<close>.
\<close>

record datetime =
  year :: int
  month :: int
  day :: int
  hour :: int
  minute :: int
  second :: int

definition civil_from_days :: "int \<Rightarrow> int \<times> int \<times> int" where
  "civil_from_days d =
     (let z = d + 719468;
          era = z div 146097;
          doe = z mod 146097;
          yoe = (doe - doe div 1460 + doe div 36524 - doe div 146096) div 365;
          doy = doe - (365 * yoe + yoe div 4 - yoe div 100);
          mp = (5 * doy + 2) div 153;
          dd = doy - (153 * mp + 2) div 5 + 1;
          m = (if mp < 10 then mp + 3 else mp - 9);
          y = yoe + era * 400 + (if m \<le> 2 then 1 else 0)
      in (y, m, dd))"

definition convert_timestamp :: "int \<Rightarrow> error + datetime" where
  "convert_timestamp timestamp =
     (if timestamp < - (2 ^ 63) \<or> 2 ^ 63 \<le> timestamp then Inl OverflowError
      else if timestamp < - 67768040609740800 \<or> 67768036191676799 < timestamp then Inl OSError
      else if timestamp < - 62135596800 \<or> 253402300799 < timestamp then Inl ValueError
      else
        (let (y, m, d) = civil_from_days (timestamp div 86400);
             s = timestamp mod 86400
         in Inr \<lparr>year = y, month = m, day = d,
                 hour = s div 3600, minute = (s mod 3600) div 60, second = s mod 60\<rparr>))"


section \<open>HistoryAdapter: the history parser\<close>

definition SYSTEM_USER :: string where
  "SYSTEM_USER = ''monitor''"

text \<open>A \<open>HistoryDict\<close> with its three keys.\<close>

record history_dict =
  date :: datetime
  user :: string
  log :: string

text \<open>
  The first loop of \<open>parse_response\<close>, with \<open>history_list\<close> as accumulator.
  \<open>history_list[-1]\<close> raises IndexError on the empty list; unpacking
  \<open>row.split(" ", 1)\<close> raises ValueError unless there are two parts.
\<close>

fun history_loop :: "history_dict list \<Rightarrow> string list \<Rightarrow> error + history_dict list" where
  "history_loop history_list [] = Inr history_list"
| "history_loop history_list (row # history_data) =
     (if row = '' '' then history_loop history_list history_data
      else if startswith_space row then
        (if history_list = [] then Inl IndexError
         else history_loop
                (butlast history_list @
                   [(last history_list)\<lparr>log := log (last history_list) @ strip row @ '' ''\<rparr>])
                history_data)
      else
        (case split1 CHR '' '' row of
           [timestamp, body] \<Rightarrow>
             (case py_int timestamp of
                Inl e \<Rightarrow> Inl e
              | Inr t \<Rightarrow>
                  (case convert_timestamp t of
                     Inl e \<Rightarrow> Inl e
                   | Inr dt \<Rightarrow>
                       history_loop
                         (history_list @
                            [if CHR '' '' \<in> set body
                             then \<lparr>date = dt, user = SYSTEM_USER, log = body\<rparr>
                             else \<lparr>date = dt, user = body, log = []\<rparr>])
                         history_data))
         | _ \<Rightarrow> Inl ValueError))"

definition HistoryAdapter_parse_response :: "string list \<Rightarrow> error + history_dict list" where
  "HistoryAdapter_parse_response history_data =
     (case history_loop [] history_data of
        Inl e \<Rightarrow> Inl e
      | Inr history_list \<Rightarrow> Inr (map (\<lambda>entry. entry\<lparr>log := strip (log entry)\<rparr>) history_list))"


section \<open>LogAdapter: the log parser\<close>

text \<open>A \<open>LogDict\<close> with its two keys.\<close>

record log_dict =
  log_date :: datetime
  log_log :: string

fun log_loop :: "log_dict list \<Rightarrow> string list \<Rightarrow> error + log_dict list" where
  "log_loop log_list [] = Inr log_list"
| "log_loop log_list (row # log_data) =
     (case split1 CHR '' '' row of
        [timestamp, lg] \<Rightarrow>
          (case py_int timestamp of
             Inl e \<Rightarrow> Inl e
           | Inr t \<Rightarrow>
               (case convert_timestamp t of
                  Inl e \<Rightarrow> Inl e
                | Inr dt \<Rightarrow> log_loop (log_list @ [\<lparr>log_date = dt, log_log = lg\<rparr>]) log_data))
      | _ \<Rightarrow> Inl ValueError)"

definition LogAdapter_parse_response :: "string list \<Rightarrow> error + log_dict list" where
  "LogAdapter_parse_response log_data = log_loop [] log_data"

section \<open>Zino1EventManager\<close>

text \<open>
  The session collaborator, given by its responses: each request either raises or returns.
  \<open>get_raw_history\<close> and \<open>get_raw_log\<close> stand for the \<open>data\<close> of the response.
\<close>

record session =
  get_caseids :: "error + int list"
  get_raw_attributes :: "int \<Rightarrow> error + string list"
  get_raw_history :: "int \<Rightarrow> error + string list"
  get_raw_log :: "int \<Rightarrow> error + string list"
  set_state :: "int \<Rightarrow> string \<Rightarrow> error + bool"

text \<open>
  The base manager and the event types are declared outside the two source files, so the
  manager takes them as parameters: the session check, the store accessors, the two
  setters (each returns the event after the call, with the store), the constructors of
  the event types, the \<open>id\<close> of an event and the \<open>value\<close> of an admin state.
\<close>

record ('ev, 'h, 'l, 'adm) externals =
  check_session :: "session \<Rightarrow> error + unit"
  get_event :: "(int \<rightharpoonup> 'ev) \<Rightarrow> int \<Rightarrow> error + 'ev"
  set_event :: "'ev \<Rightarrow> (int \<rightharpoonup> 'ev) \<Rightarrow> (error + unit) \<times> (int \<rightharpoonup> 'ev)"
  set_history_for_event :: "'ev \<Rightarrow> 'h list \<Rightarrow> (int \<rightharpoonup> 'ev) \<Rightarrow> (error + 'ev) \<times> (int \<rightharpoonup> 'ev)"
  set_log_for_event :: "'ev \<Rightarrow> 'l list \<Rightarrow> (int \<rightharpoonup> 'ev) \<Rightarrow> (error + 'ev) \<times> (int \<rightharpoonup> 'ev)"
  Event_create :: "(string \<times> attr_value) list \<Rightarrow> error + 'ev"
  Event_id :: "'ev \<Rightarrow> int"
  HistoryEntry_create_list :: "history_dict list \<Rightarrow> error + 'h list"
  LogEntry_create_list :: "log_dict list \<Rightarrow> error + 'l list"
  AdmState_value :: "'adm \<Rightarrow> string"

text \<open>\<open>rename_exception\<close> around a call: a ProtocolError becomes a ManagerException.\<close>

definition rename_exception :: "error + 'a \<Rightarrow> error + 'a" where
  "rename_exception r =
     (case r of
        Inl e \<Rightarrow> (if e = ProtocolError then Inl ManagerException else Inl e)
      | Inr x \<Rightarrow> Inr x)"

definition create_event_from_id ::
  "('ev, 'h, 'l, 'adm) externals \<Rightarrow> session \<Rightarrow> int \<Rightarrow> error + 'ev" where
  "create_event_from_id X sess event_id =
     (case check_session X sess of
        Inl e \<Rightarrow> Inl e
      | Inr _ \<Rightarrow>
          (case rename_exception (get_raw_attributes sess event_id) of
             Inl e \<Rightarrow> Inl e
           | Inr attrlist \<Rightarrow>
               (case attrlist_to_attrdict attrlist of
                  Inl e \<Rightarrow> Inl e
                | Inr attrdict \<Rightarrow>
                    (case convert_values attrdict of
                       Inl e \<Rightarrow> Inl e
                     | Inr attrdict' \<Rightarrow> Event_create X attrdict'))))"

text \<open>The loop of \<open>get_events\<close> over the event ids, with the store as state.\<close>

fun get_events_loop ::
  "('ev, 'h, 'l, 'adm) externals \<Rightarrow> session \<Rightarrow> int list \<Rightarrow> (int \<rightharpoonup> 'ev)
     \<Rightarrow> (error + unit) \<times> (int \<rightharpoonup> 'ev)" where
  "get_events_loop X sess [] events = (Inr (), events)"
| "get_events_loop X sess (event_id # ids) events =
     (case create_event_from_id X sess event_id of
        Inl e \<Rightarrow> (Inl e, events)
      | Inr event \<Rightarrow> get_events_loop X sess ids (events(event_id \<mapsto> event)))"

definition get_events ::
  "('ev, 'h, 'l, 'adm) externals \<Rightarrow> session \<Rightarrow> (int \<rightharpoonup> 'ev)
     \<Rightarrow> (error + unit) \<times> (int \<rightharpoonup> 'ev)" where
  "get_events X sess events =
     (case check_session X sess of
        Inl e \<Rightarrow> (Inl e, events)
      | Inr _ \<Rightarrow>
          (case get_caseids sess of
             Inl e \<Rightarrow> (Inl e, events)
           | Inr ids \<Rightarrow> get_events_loop X sess ids events))"

definition get_history_for_id ::
  "('ev, 'h, 'l, 'adm) externals \<Rightarrow> session \<Rightarrow> int \<Rightarrow> error + 'h list" where
  "get_history_for_id X sess event_id =
     (case check_session X sess of
        Inl e \<Rightarrow> Inl e
      | Inr _ \<Rightarrow>
          (case rename_exception (get_raw_history sess event_id) of
             Inl e \<Rightarrow> Inl e
           | Inr raw_history \<Rightarrow>
               (case HistoryAdapter_parse_response raw_history of
                  Inl e \<Rightarrow> Inl e
                | Inr parsed_history \<Rightarrow> HistoryEntry_create_list X parsed_history)))"

definition get_log_for_id ::
  "('ev, 'h, 'l, 'adm) externals \<Rightarrow> session \<Rightarrow> int \<Rightarrow> error + 'l list" where
  "get_log_for_id X sess event_id =
     (case check_session X sess of
        Inl e \<Rightarrow> Inl e
      | Inr _ \<Rightarrow>
          (case rename_exception (get_raw_log sess event_id) of
             Inl e \<Rightarrow> Inl e
           | Inr raw_log \<Rightarrow>
               (case LogAdapter_parse_response raw_log of
                  Inl e \<Rightarrow> Inl e
                | Inr parsed_log \<Rightarrow> LogEntry_create_list X parsed_log)))"

definition get_updated_event_for_id ::
  "('ev, 'h, 'l, 'adm) externals \<Rightarrow> session \<Rightarrow> int \<Rightarrow> (int \<rightharpoonup> 'ev)
     \<Rightarrow> (error + 'ev) \<times> (int \<rightharpoonup> 'ev)" where
  "get_updated_event_for_id X sess event_id events =
     (case create_event_from_id X sess event_id of
        Inl e \<Rightarrow> (Inl e, events)
      | Inr event \<Rightarrow>
          (case get_history_for_id X sess (Event_id X event) of
             Inl e \<Rightarrow> (Inl e, events)
           | Inr history_list \<Rightarrow>
               (case set_history_for_event X event history_list events of
                  (Inl e, events1) \<Rightarrow> (Inl e, events1)
                | (Inr event1, events1) \<Rightarrow>
                    (case get_log_for_id X sess (Event_id X event1) of
                       Inl e \<Rightarrow> (Inl e, events1)
                     | Inr log_list \<Rightarrow> set_log_for_event X event1 log_list events1))))"

text \<open>
  \<open>EventAdapter.set_admin_state\<close> is the plain call \<open>session.set_state(event.id,
  state.value)\<close>; \<open>change_admin_state_for_id\<close> makes it without \<open>rename_exception\<close>.
  The result is the returned event, or \<open>None\<close>.
\<close>

definition set_admin_state ::
  "('ev, 'h, 'l, 'adm) externals \<Rightarrow> session \<Rightarrow> 'ev \<Rightarrow> 'adm \<Rightarrow> error + bool" where
  "set_admin_state X sess event state = set_state sess (Event_id X event) (AdmState_value X state)"

definition change_admin_state_for_id ::
  "('ev, 'h, 'l, 'adm) externals \<Rightarrow> session \<Rightarrow> int \<Rightarrow> 'adm \<Rightarrow> (int \<rightharpoonup> 'ev)
     \<Rightarrow> (error + 'ev option) \<times> (int \<rightharpoonup> 'ev)" where
  "change_admin_state_for_id X sess event_id admin_state events =
     (case check_session X sess of
        Inl e \<Rightarrow> (Inl e, events)
      | Inr _ \<Rightarrow>
          (case get_event X events event_id of
             Inl e \<Rightarrow> (Inl e, events)
           | Inr event \<Rightarrow>
               (case set_admin_state X sess event admin_state of
                  Inl e \<Rightarrow> (Inl e, events)
                | Inr success \<Rightarrow>
                    if success then
                      (case get_updated_event_for_id X sess event_id events of
                         (Inl e, events1) \<Rightarrow> (Inl e, events1)
                       | (Inr event1, events1) \<Rightarrow>
                           (case set_event X event1 events1 of
                              (Inl e, events2) \<Rightarrow> (Inl e, events2)
                            | (Inr _, events2) \<Rightarrow> (Inr (Some event1), events2)))
                    else (Inr None, events))))"


section \<open>The dashboard's poll step\<close>

text \<open>
  A notification has an event id, a kind and an auxiliary \<open>case\<close> id that may be absent.
  The dashboard state is the global \<open>cases\<close> dictionary, the global \<open>cases_selected\<close>
  list and the ids requested from the session so far.
\<close>

record notification =
  update_id :: int
  update_type :: string
  update_case :: "int option"

record 'c dashboard =
  cases :: "int \<rightharpoonup> 'c"
  cases_selected :: "int list"
  fetched :: "int list"

text \<open>
  \<open>cases[update.id] = session.case(update.id)\<close>: the request is recorded, and a raising
  session leaves \<open>cases\<close> as it was.
\<close>

definition refetch ::
  "(int \<Rightarrow> error + 'c) \<Rightarrow> int \<Rightarrow> 'c dashboard \<Rightarrow> (error + bool option) \<times> 'c dashboard" where
  "refetch session_case i st =
     (let st1 = st\<lparr>fetched := fetched st @ [i]\<rparr>
      in case session_case i of
           Inl e \<Rightarrow> (Inl e, st1)
         | Inr c \<Rightarrow> (Inr (Some True), st1\<lparr>cases := (cases st1)(i \<mapsto> c)\<rparr>))"

text \<open>
  \<open>poll\<close> on the result of \<open>notifier.poll()\<close>. The result is what \<open>poll\<close> returns:
  \<open>None\<close>, \<open>True\<close> or \<open>False\<close>. \<open>cases_selected.remove\<close> raises ValueError when the
  id is not in the list and removes its first occurrence otherwise.
\<close>

definition poll ::
  "(int \<Rightarrow> error + 'c) \<Rightarrow> notification option \<Rightarrow> 'c dashboard
     \<Rightarrow> (error + bool option) \<times> 'c dashboard" where
  "poll session_case upd st =
     (case upd of
        None \<Rightarrow> (Inr None, st)
      | Some update \<Rightarrow>
          if cases st (update_id update) = None \<and> update_type update \<noteq> ''state''
          then (Inr None, st)
          else if update_type update = ''state'' then refetch session_case (update_id update) st
          else if update_type update = ''attr'' then refetch session_case (update_id update) st
          else if update_type update = ''history'' then (Inr (Some True), st)
          else if update_type update = ''log'' then (Inr (Some True), st)
          else if update_type update = ''scavenged'' then
            (let st1 = st\<lparr>cases := (cases st)(update_id update := None)\<rparr>
             in if (case update_case update of
                      None \<Rightarrow> False
                    | Some c \<Rightarrow> c \<in> set (cases_selected st1))
                then (if update_id update \<in> set (cases_selected st1)
                      then (Inr (Some True),
                            st1\<lparr>cases_selected := remove1 (update_id update) (cases_selected st1)\<rparr>)
                      else (Inl ValueError, st1))
                else (Inr (Some True), st1))
          else (Inr (Some False), st))"

section \<open>Vocabulary of the properties\<close>

text \<open>
  The key and the value that the loop body of \<open>attrlist_to_attrdict\<close> stores for a line
  with a separator: \<open>k\<close> and \<open>v\<close> are the two parts of the split.
\<close>

definition line_key :: "string \<Rightarrow> string" where
  "line_key item = normalize_key (before_sep CHR '':'' item)"

definition line_value :: "string \<Rightarrow> string" where
  "line_value item = strip (after_sep CHR '':'' item)"

definition line_entry :: "string \<Rightarrow> string \<times> string" where
  "line_entry item = (line_key item, line_value item)"

text \<open>
  The specification's description of the attribute parser, step by step: hyphens become
  underscores, the key goes through the rename table, the value is trimmed.
  \<open>claimed_entry\<close> is the entry of a line in these words; \<open>trimmed_entry\<close> trims the
  renamed key as well.
\<close>

definition hyphens_to_underscores :: "string \<Rightarrow> string" where
  "hyphens_to_underscores k = map (\<lambda>c. if c = CHR ''-'' then CHR ''_'' else c) k"

definition rename_field :: "string \<Rightarrow> string" where
  "rename_field k = dict_get FIELD_MAP k k"

definition claimed_entry :: "string \<Rightarrow> string \<times> string" where
  "claimed_entry item =
     (rename_field (hyphens_to_underscores (before_sep CHR '':'' item)),
      strip (after_sep CHR '':'' item))"

definition trimmed_entry :: "string \<Rightarrow> string \<times> string" where
  "trimmed_entry item =
     (strip (rename_field (hyphens_to_underscores (before_sep CHR '':'' item))),
      strip (after_sep CHR '':'' item))"


text \<open>
  The normalized key of a line. \<open>claimed_key\<close> is the specification's normalization:
  hyphens become underscores, then the rename table. \<open>trimmed_key\<close> trims the result
  of surrounding whitespace as well; \<open>trimmed_value\<close> is the trimmed value of the line.
\<close>

definition claimed_key :: "string \<Rightarrow> string" where
  "claimed_key item = rename_field (hyphens_to_underscores (before_sep CHR '':'' item))"

definition trimmed_key :: "string \<Rightarrow> string" where
  "trimmed_key item = strip (rename_field (hyphens_to_underscores (before_sep CHR '':'' item)))"

definition trimmed_value :: "string \<Rightarrow> string" where
  "trimmed_value item = strip (after_sep CHR '':'' item)"


section \<open>Instances for evaluation\<close>

text \<open>
  One instance of the manager's parameters, a session and a store, on which the manager is
  evaluated: events are records of their id, attributes, history and log; the session
  check passes; the store accessors read and write the map; the session raises a protocol
  error for the attributes of event 2 and for a state change of event 1, and declines
  every other state change.
\<close>

record example_event =
  ev_id :: int
  ev_attrs :: "(string \<times> attr_value) list"
  ev_history :: "history_dict list"
  ev_log :: "log_dict list"

definition example_create :: "(string \<times> attr_value) list \<Rightarrow> error + example_event" where
  "example_create attrdict =
     (case map_of attrdict ''id'' of
        Some (StrVal s) \<Rightarrow>
          (case py_int s of
             Inl e \<Rightarrow> Inl e
           | Inr i \<Rightarrow> Inr \<lparr>ev_id = i, ev_attrs = attrdict, ev_history = [], ev_log = []\<rparr>)
      | _ \<Rightarrow> Inl ValueError)"

definition example_externals :: "(example_event, history_dict, log_dict, string) externals" where
  "example_externals =
     \<lparr>check_session = (\<lambda>sess. Inr ()),
      get_event = (\<lambda>events i. case events i of None \<Rightarrow> Inl KeyError | Some event \<Rightarrow> Inr event),
      set_event = (\<lambda>event events. (Inr (), events(ev_id event \<mapsto> event))),
      set_history_for_event = (\<lambda>event h events. (Inr (event\<lparr>ev_history := h\<rparr>), events)),
      set_log_for_event = (\<lambda>event l events. (Inr (event\<lparr>ev_log := l\<rparr>), events)),
      Event_create = example_create,
      Event_id = ev_id,
      HistoryEntry_create_list = Inr,
      LogEntry_create_list = Inr,
      AdmState_value = (\<lambda>s. s)\<rparr>"

definition example_session :: session where
  "example_session =
     \<lparr>get_caseids = Inr [1, 2, 3],
      get_raw_attributes =
        (\<lambda>i. if i = 2 then Inl ProtocolError
              else if i = 1 then Inr [''id:1'', ''state:open'']
              else Inr [''id:3'', ''state:working'']),
      get_raw_history = (\<lambda>i. Inr []),
      get_raw_log = (\<lambda>i. Inr []),
      set_state = (\<lambda>i s. if i = 1 then Inl ProtocolError else Inr False)\<rparr>"

definition example_event_1 :: example_event where
  "example_event_1 =
     \<lparr>ev_id = 1, ev_attrs = [(''id'', StrVal ''1''), (''adm_state'', StrVal ''open'')],
      ev_history = [], ev_log = []\<rparr>"

definition example_event_3 :: example_event where
  "example_event_3 =
     \<lparr>ev_id = 3, ev_attrs = [(''id'', StrVal ''3''), (''adm_state'', StrVal ''working'')],
      ev_history = [], ev_log = []\<rparr>"

definition example_events :: "int \<rightharpoonup> example_event" where
  "example_events = [1 \<mapsto> example_event_1, 3 \<mapsto> example_event_3]"

text \<open>
  A dashboard state in which the case 7 is known and selected, and a session that answers
  every case request.
\<close>

definition example_case :: "int \<Rightarrow> error + string" where
  "example_case i = Inr ''case''"

definition example_dashboard :: "string dashboard" where
  "example_dashboard = \<lparr>cases = [7 \<mapsto> ''case''], cases_selected = [3, 7], fetched = []\<rparr>"


section \<open>Strings and dictionaries\<close>

lemma split_all_not_Nil: "split_all sep s \<noteq> []"
  by (induction s) (simp_all split: list.splits)

lemma join_Cons_head: "join sep ((c # p) # ps) = c # join sep (p # ps)"
  by (cases ps) simp_all

text \<open>Splitting at every separator and joining with one character replaces the separator.\<close>

lemma join_split_all: "join [u] (split_all sep s) = map (\<lambda>c. if c = sep then u else c) s"
proof (induction s)
  case Nil
  show ?case by simp
next
  case (Cons c cs)
  obtain p ps where ps: "split_all sep cs = p # ps"
    using split_all_not_Nil [of sep cs] by (cases "split_all sep cs") auto
  show ?case
  proof (cases "c = sep")
    case True
    with Cons ps show ?thesis by simp
  next
    case False
    with Cons ps show ?thesis by (simp add: join_Cons_head)
  qed
qed

lemma map_no_hyphen:
  "CHR ''-'' \<notin> set k \<Longrightarrow> map (\<lambda>c. if c = CHR ''-'' then CHR ''_'' else c) k = k"
  by (induction k) auto

lemma normalize_key_eq: "normalize_key k = strip (rename_field (hyphens_to_underscores k))"
  using join_split_all [of "CHR ''_''" "CHR ''-''" k]
  by (simp add: normalize_key_def rename_field_def hyphens_to_underscores_def Let_def map_no_hyphen)

lemma trimmed_entry_eq: "trimmed_entry = line_entry"
  by (rule ext)
     (simp add: trimmed_entry_def line_entry_def line_key_def line_value_def normalize_key_eq)

lemma map_of_dict_set_at: "map_of (dict_set k v d) k' = (if k' = k then Some v else map_of d k')"
  by (induction d) auto

lemma map_of_dict_set: "map_of (dict_set k v d) = (map_of d)(k \<mapsto> v)"
  by (rule ext) (simp add: map_of_dict_set_at)

lemma keys_dict_set: "fst ` set (dict_set k v d) = insert k (fst ` set d)"
  by (simp add: dom_map_of_conv_image_fst [symmetric] map_of_dict_set)

lemma map_fst_dict_set:
  "map fst (dict_set k v d) = (if k \<in> set (map fst d) then map fst d else map fst d @ [k])"
  by (induction k v d rule: dict_set.induct) auto

lemma distinct_dict_set: "distinct (map fst d) \<Longrightarrow> distinct (map fst (dict_set k v d))"
  unfolding map_fst_dict_set by simp


section \<open>The attribute parser\<close>

lemma attr_item_valid:
  "CHR '':'' \<in> set item \<Longrightarrow>
   attr_item d item = Inr (dict_set (line_key item) (line_value item) d)"
  by (simp add: attr_item_def split1_def line_key_def line_value_def)

lemma attr_item_invalid: "CHR '':'' \<notin> set item \<Longrightarrow> attr_item d item = Inl ValueError"
  by (simp add: attr_item_def split1_def)

text \<open>
  The loop over lines that all have a separator returns a dictionary: the entries of the
  lines, later lines first, in front of the dictionary it started from.
\<close>

lemma attr_loop_valid:
  "\<forall>item\<in>set attrlist. CHR '':'' \<in> set item \<Longrightarrow>
   \<exists>d'. attr_loop d attrlist = Inr d'
     \<and> map_of d' = map_of (rev (map line_entry attrlist) @ d)
     \<and> fst ` set d' = fst ` set d \<union> line_key ` set attrlist
     \<and> (distinct (map fst d) \<longrightarrow> distinct (map fst d'))"
proof (induction attrlist arbitrary: d)
  case Nil
  show ?case by simp
next
  case (Cons item attrlist)
  let ?d1 = "dict_set (line_key item) (line_value item) d"
  have step: "attr_item d item = Inr ?d1"
    using Cons.prems by (simp add: attr_item_valid)
  from Cons.IH [of ?d1] Cons.prems obtain d' where
    d': "attr_loop ?d1 attrlist = Inr d'"
        "map_of d' = map_of (rev (map line_entry attrlist) @ ?d1)"
        "fst ` set d' = fst ` set ?d1 \<union> line_key ` set attrlist"
        "distinct (map fst ?d1) \<longrightarrow> distinct (map fst d')"
    by auto
  have m: "map_of (rev (map line_entry attrlist) @ ?d1)
           = map_of (rev (map line_entry (item # attrlist)) @ d)"
    by (simp add: map_of_dict_set line_entry_def)
  have k: "fst ` set ?d1 \<union> line_key ` set attrlist
           = fst ` set d \<union> line_key ` set (item # attrlist)"
    by (simp add: keys_dict_set)
  have dd: "distinct (map fst d) \<longrightarrow> distinct (map fst d')"
    using d'(4) by (simp add: distinct_dict_set)
  have r: "attr_loop d (item # attrlist) = Inr d'"
    using step d'(1) by simp
  have m': "map_of d' = map_of (rev (map line_entry (item # attrlist)) @ d)"
    using d'(2) m by simp
  have k': "fst ` set d' = fst ` set d \<union> line_key ` set (item # attrlist)"
    using d'(3) k by simp
  show ?case
    by (rule exI [of _ d']) (intro conjI r m' k' dd)
qed

lemma attr_loop_invalid:
  "\<exists>item\<in>set attrlist. CHR '':'' \<notin> set item \<Longrightarrow> attr_loop d attrlist = Inl ValueError"
proof (induction attrlist arbitrary: d)
  case Nil
  then show ?case by simp
next
  case (Cons item attrlist)
  show ?case
  proof (cases "CHR '':'' \<in> set item")
    case True
    with Cons show ?thesis by (simp add: attr_item_valid)
  next
    case False
    then show ?thesis by (simp add: attr_item_invalid)
  qed
qed

lemma attrlist_to_attrdict_valid:
  assumes "\<forall>item\<in>set attrlist. CHR '':'' \<in> set item"
  shows "\<exists>d. attrlist_to_attrdict attrlist = Inr d
     \<and> map_of d = map_of (rev (map line_entry attrlist))
     \<and> fst ` set d = line_key ` set attrlist
     \<and> distinct (map fst d)"
proof -
  from attr_loop_valid [OF assms, of "[]"] obtain d where
    d1: "attr_loop [] attrlist = Inr d" and
    d2: "map_of d = map_of (rev (map line_entry attrlist))" and
    d3: "fst ` set d = line_key ` set attrlist" and
    d4: "distinct (map fst d)"
    by auto
  show ?thesis
    using d1 d2 d3 d4 by (simp add: attrlist_to_attrdict_def)
qed

lemma map_of_last_wins:
  assumes "\<forall>later\<in>set post. line_key later \<noteq> line_key item"
  shows "map_of (rev (map line_entry (pre @ item # post))) (line_key item) = Some (line_value item)"
proof -
  have "line_key item \<notin> fst ` set (rev (map line_entry post))"
    using assms by (auto simp: line_entry_def)
  then have "map_of (rev (map line_entry post)) (line_key item) = None"
    by (simp add: map_of_eq_None_iff)
  then show ?thesis
    by (simp add: map_add_def line_entry_def)
qed

text \<open>
  Claim C4, as the code has it: for lines that all contain a colon the parser returns a
  dictionary that maps, for each line, the key with hyphens replaced by underscores, passed
  through the rename table and then trimmed, to the trimmed value (a later line with the
  same key replacing an earlier one); and the three example lines give the dictionary
  \<open>id\<close>: 42, \<open>adm_state\<close>: open, \<open>if_index\<close>: 3.
\<close>

theorem attrlist_to_attrdict_normalizes:
  assumes "\<forall>item\<in>set attrlist. CHR '':'' \<in> set item"
  shows "(\<exists>d. attrlist_to_attrdict attrlist = Inr d
           \<and> map_of d = map_of (rev (map trimmed_entry attrlist)))
     \<and> attrlist_to_attrdict [''id:42'', ''state:open'', ''ifindex:3'']
         = Inr [(''id'', ''42''), (''adm_state'', ''open''), (''if_index'', ''3'')]"
proof
  from attrlist_to_attrdict_valid [OF assms]
  show "\<exists>d. attrlist_to_attrdict attrlist = Inr d
           \<and> map_of d = map_of (rev (map trimmed_entry attrlist))"
    unfolding trimmed_entry_eq by blast
  show "attrlist_to_attrdict [''id:42'', ''state:open'', ''ifindex:3'']
         = Inr [(''id'', ''42''), (''adm_state'', ''open''), (''if_index'', ''3'')]"
    by code_simp
qed

theorem attrlist_to_attrdict_normalizes_witness:
  "\<exists>d. attrlist_to_attrdict ['' bfd-Addr : 10.0.0.1 '', ''bfd_Addr:x''] = Inr d
      \<and> map_of d = map_of (rev (map trimmed_entry ['' bfd-Addr : 10.0.0.1 '', ''bfd_Addr:x'']))"
proof -
  have h: "\<forall>item\<in>set ['' bfd-Addr : 10.0.0.1 '', ''bfd_Addr:x'']. CHR '':'' \<in> set item"
    by simp
  from attrlist_to_attrdict_normalizes [OF h] show ?thesis
    by (rule conjunct1)
qed

text \<open>
  Claim C4 as stated leaves the trimming of the key out: for the line \<open>" a:b"\<close> the
  parser stores the key \<open>"a"\<close>, where hyphen replacement and the rename table alone give
  \<open>" a"\<close>.
\<close>

theorem attrlist_to_attrdict_untrimmed_key_counterexample:
  "attrlist_to_attrdict ['' a:b''] = Inr [(''a'', ''b'')]
   \<and> claimed_entry '' a:b'' = ('' a'', ''b'')"
  by code_simp

lemma line_key_eq: "line_key = trimmed_key"
  by (rule ext) (simp add: line_key_def trimmed_key_def normalize_key_eq)

lemma line_value_eq: "line_value = trimmed_value"
  by (rule ext) (simp add: line_value_def trimmed_value_def)

text \<open>
  Claim C5, as the code has it: with the normalized key of a line being its key with
  hyphens replaced by underscores, passed through the rename table and then trimmed, the
  parser returns for lines that all contain a colon a dictionary with exactly one entry
  per distinct normalized key and no other entry, and a line after which no line has the
  same normalized key gives that key its trimmed value.
\<close>

theorem attrlist_to_attrdict_last_wins:
  assumes "\<forall>item\<in>set attrlist. CHR '':'' \<in> set item"
  shows "\<exists>d. attrlist_to_attrdict attrlist = Inr d
     \<and> distinct (map fst d)
     \<and> set (map fst d) = trimmed_key ` set attrlist
     \<and> (\<forall>pre item post.
           attrlist = pre @ item # post
           \<and> (\<forall>later\<in>set post. trimmed_key later \<noteq> trimmed_key item)
           \<longrightarrow> map_of d (trimmed_key item) = Some (trimmed_value item))"
proof -
  from attrlist_to_attrdict_valid [OF assms] obtain d where
    d: "attrlist_to_attrdict attrlist = Inr d"
       "map_of d = map_of (rev (map line_entry attrlist))"
       "fst ` set d = trimmed_key ` set attrlist"
       "distinct (map fst d)"
    unfolding line_key_eq by blast
  have last: "map_of d (trimmed_key item) = Some (trimmed_value item)"
    if "attrlist = pre @ item # post" "\<forall>later\<in>set post. trimmed_key later \<noteq> trimmed_key item"
    for pre item post
    using that d(2) map_of_last_wins [of post item pre]
    by (simp add: line_key_eq line_value_eq)
  show ?thesis
    using d last by (intro exI [of _ d]) (simp add: image_set [symmetric] del: image_set)
qed

theorem attrlist_to_attrdict_last_wins_witness:
  "\<exists>d. attrlist_to_attrdict ['' a:1'', ''id:7'', ''a:2''] = Inr d
      \<and> distinct (map fst d)
      \<and> set (map fst d) = trimmed_key ` set ['' a:1'', ''id:7'', ''a:2'']
      \<and> map_of d (trimmed_key ''a:2'') = Some (trimmed_value ''a:2'')"
proof -
  have h: "\<forall>item\<in>set ['' a:1'', ''id:7'', ''a:2'']. CHR '':'' \<in> set item"
    by simp
  from attrlist_to_attrdict_last_wins [OF h] obtain d where
    d: "attrlist_to_attrdict ['' a:1'', ''id:7'', ''a:2''] = Inr d"
       "distinct (map fst d)"
       "set (map fst d) = trimmed_key ` set ['' a:1'', ''id:7'', ''a:2'']"
    and last: "\<And>pre item post.
           ['' a:1'', ''id:7'', ''a:2''] = pre @ item # post
           \<and> (\<forall>later\<in>set post. trimmed_key later \<noteq> trimmed_key item)
           \<Longrightarrow> map_of d (trimmed_key item) = Some (trimmed_value item)"
    by blast
  have "map_of d (trimmed_key ''a:2'') = Some (trimmed_value ''a:2'')"
    by (rule last [of "['' a:1'', ''id:7'']" "''a:2''" "[]"]) simp
  with d show ?thesis by blast
qed

text \<open>
  Claim C5 as stated, with the specification's normalization: the lines \<open>" a:1"\<close> and
  \<open>"a:2"\<close> have the two distinct normalized keys \<open>" a"\<close> and \<open>"a"\<close>, and the
  parser returns the single entry \<open>a\<close>: 2.
\<close>

theorem attrlist_to_attrdict_one_entry_counterexample:
  "claimed_key '' a:1'' = '' a'' \<and> claimed_key ''a:2'' = ''a''
   \<and> attrlist_to_attrdict ['' a:1'', ''a:2''] = Inr [(''a'', ''2'')]"
  by code_simp


section \<open>Missing separators\<close>

lemma log_loop_append:
  "log_loop acc pre = Inr r \<Longrightarrow> log_loop acc (pre @ rest) = log_loop r rest"
proof (induction pre arbitrary: acc)
  case Nil
  then show ?case by simp
next
  case (Cons row pre)
  then show ?case
    by (auto split: list.splits sum.splits)
qed

lemma log_loop_no_space:
  "CHR '' '' \<notin> set row \<Longrightarrow> log_loop acc (row # rest) = Inl ValueError"
  by (simp add: split1_def)

lemma log_loop_fails:
  "\<exists>row\<in>set log_data. CHR '' '' \<notin> set row \<Longrightarrow> \<exists>e. log_loop acc log_data = Inl e"
proof (induction log_data arbitrary: acc)
  case Nil
  then show ?case by simp
next
  case (Cons row log_data)
  show ?case
  proof (cases "CHR '' '' \<in> set row")
    case False
    then show ?thesis by (simp add: split1_def)
  next
    case True
    with Cons.prems have "\<exists>row\<in>set log_data. CHR '' '' \<notin> set row" by auto
    from Cons.IH [OF this] show ?thesis
      by (simp add: split1_def True split: sum.splits)
  qed
qed

text \<open>
  Claim C6: an attribute list with a line that has no colon makes the attribute parser
  raise the ValueError of the failed unpacking (the specification's ParseError); a log
  block with a line that has no space makes the log parser raise, and the exception is
  that ValueError when the lines before it parse.
\<close>

theorem parsers_reject_missing_separator:
  "((\<exists>item\<in>set attrlist. CHR '':'' \<notin> set item)
      \<longrightarrow> attrlist_to_attrdict attrlist = Inl ValueError)
   \<and> ((\<exists>row\<in>set log_data. CHR '' '' \<notin> set row)
      \<longrightarrow> (\<exists>e. LogAdapter_parse_response log_data = Inl e))
   \<and> (CHR '' '' \<notin> set row \<and> LogAdapter_parse_response pre = Inr parsed
      \<longrightarrow> LogAdapter_parse_response (pre @ row # post) = Inl ValueError)"
proof (intro conjI impI)
  assume "\<exists>item\<in>set attrlist. CHR '':'' \<notin> set item"
  then show "attrlist_to_attrdict attrlist = Inl ValueError"
    by (simp add: attrlist_to_attrdict_def attr_loop_invalid)
next
  assume "\<exists>row\<in>set log_data. CHR '' '' \<notin> set row"
  then show "\<exists>e. LogAdapter_parse_response log_data = Inl e"
    unfolding LogAdapter_parse_response_def by (rule log_loop_fails)
next
  assume a: "CHR '' '' \<notin> set row \<and> LogAdapter_parse_response pre = Inr parsed"
  then have ns: "CHR '' '' \<notin> set row" and p: "log_loop [] pre = Inr parsed"
    by (simp_all add: LogAdapter_parse_response_def)
  have "log_loop [] (pre @ row # post) = log_loop parsed (row # post)"
    using p by (rule log_loop_append)
  also have "\<dots> = Inl ValueError"
    using ns by (rule log_loop_no_space)
  finally show "LogAdapter_parse_response (pre @ row # post) = Inl ValueError"
    by (simp add: LogAdapter_parse_response_def)
qed

lemma log_example:
  "LogAdapter_parse_response [''1683159556 some log message'']
   = Inr [\<lparr>log_date = \<lparr>year = 2023, month = 5, day = 4, hour = 0, minute = 19, second = 16\<rparr>,
            log_log = ''some log message''\<rparr>]"
  by code_simp

theorem parsers_reject_missing_separator_witness:
  "attrlist_to_attrdict [''id:42'', ''state open''] = Inl ValueError
   \<and> (\<exists>e. LogAdapter_parse_response [''1683159556 some log message'', ''1683218672''] = Inl e)
   \<and> LogAdapter_parse_response [''1683159556 some log message'', ''1683218672''] = Inl ValueError"
proof -
  have h1: "\<exists>item\<in>set [''id:42'', ''state open'']. CHR '':'' \<notin> set item"
    by simp
  have h2: "\<exists>row\<in>set [''1683159556 some log message'', ''1683218672'']. CHR '' '' \<notin> set row"
    by simp
  have h3: "CHR '' '' \<notin> set ''1683218672''
      \<and> LogAdapter_parse_response [''1683159556 some log message'']
        = Inr [\<lparr>log_date = \<lparr>year = 2023, month = 5, day = 4, hour = 0, minute = 19, second = 16\<rparr>,
            log_log = ''some log message''\<rparr>]"
    using log_example by simp
  note t = parsers_reject_missing_separator
    [of "[''id:42'', ''state open'']" "[''1683159556 some log message'', ''1683218672'']"
        "''1683218672''" "[''1683159556 some log message'']" _ "[]"]
  from t h1 have c1: "attrlist_to_attrdict [''id:42'', ''state open''] = Inl ValueError"
    by blast
  from t h2 have c2:
    "\<exists>e. LogAdapter_parse_response [''1683159556 some log message'', ''1683218672''] = Inl e"
    by blast
  from t h3 have c3:
    "LogAdapter_parse_response ([''1683159556 some log message''] @ ''1683218672'' # [])
       = Inl ValueError"
    by blast
  from c1 c2 c3 show ?thesis by simp
qed


section \<open>The history parser\<close>

text \<open>
  Claim C7, as the code has it: the four example lines give two entries in order, the
  system entry of 2023-03-08 11:02:52 UTC by \<open>monitor\<close> with the body as message and
  the user entry of 2023-03-08 11:52:55 UTC by \<open>alice\<close> with the message
  \<open>manual note\<close>.
\<close>

theorem history_example:
  "HistoryAdapter_parse_response
     [''1678273372 state change embryonic -> open (monitor)'', ''1678276375 alice'',
      '' manual note '', '' '']
   = Inr [\<lparr>date = \<lparr>year = 2023, month = 3, day = 8, hour = 11, minute = 2, second = 52\<rparr>,
            user = ''monitor'', log = ''state change embryonic -> open (monitor)''\<rparr>,
          \<lparr>date = \<lparr>year = 2023, month = 3, day = 8, hour = 11, minute = 52, second = 55\<rparr>,
            user = ''alice'', log = ''manual note''\<rparr>]"
  by code_simp

text \<open>
  Claim C7 as stated gives the two entries the times 06:49:32 and 07:39:35; the parser's
  result is not that list.
\<close>

theorem history_example_dates_counterexample:
  "HistoryAdapter_parse_response
     [''1678273372 state change embryonic -> open (monitor)'', ''1678276375 alice'',
      '' manual note '', '' '']
   \<noteq> Inr [\<lparr>date = \<lparr>year = 2023, month = 3, day = 8, hour = 6, minute = 49, second = 32\<rparr>,
            user = ''monitor'', log = ''state change embryonic -> open (monitor)''\<rparr>,
          \<lparr>date = \<lparr>year = 2023, month = 3, day = 8, hour = 7, minute = 39, second = 35\<rparr>,
            user = ''alice'', log = ''manual note''\<rparr>]"
  by code_simp

lemma history_loop_markers:
  "set pre \<subseteq> {'' ''} \<Longrightarrow> history_loop acc (pre @ rest) = history_loop acc rest"
  by (induction pre) auto

text \<open>
  Claim C10, as the code has it: when the first line other than the end-of-entry marker
  \<open>" "\<close> begins with a space character, the parser raises the IndexError of
  \<open>history_list[-1]\<close> on the empty list.
\<close>

theorem history_needs_entry_start:
  assumes "set pre \<subseteq> {'' ''}" and "startswith_space row" and "row \<noteq> '' ''"
  shows "HistoryAdapter_parse_response (pre @ row # rest) = Inl IndexError"
  using assms by (simp add: HistoryAdapter_parse_response_def history_loop_markers)

theorem history_needs_entry_start_witness:
  "HistoryAdapter_parse_response ['' '', '' manual note '', ''1678276375 alice''] = Inl IndexError"
proof -
  have "HistoryAdapter_parse_response (['' ''] @ '' manual note '' # [''1678276375 alice''])
          = Inl IndexError"
    by (rule history_needs_entry_start) (simp_all add: startswith_space_def)
  then show ?thesis by simp
qed

text \<open>
  Claim C10 as stated speaks of any leading whitespace: a first line that begins with a
  tab is whitespace-led, is not the marker, and is parsed as an entry start.
\<close>

theorem history_leading_tab_counterexample:
  "isspace (CHR 0x09) \<and> CHR 0x09 # ''1678276375 a b'' \<noteq> '' ''
   \<and> HistoryAdapter_parse_response [CHR 0x09 # ''1678276375 a b'']
     = Inr [\<lparr>date = \<lparr>year = 2023, month = 3, day = 8, hour = 11, minute = 52, second = 55\<rparr>,
              user = ''monitor'', log = ''a b''\<rparr>]"
  by code_simp


section \<open>The event manager\<close>

lemma get_events_loop_abort:
  assumes "\<forall>i\<in>set pre. create_event_from_id X sess i = Inr (mk i)"
      and "create_event_from_id X sess bad = Inl e"
  shows "get_events_loop X sess (pre @ bad # post) events
         = (Inl e, (\<lambda>i. if i \<in> set pre then Some (mk i) else events i))"
  using assms
proof (induction pre arbitrary: events)
  case Nil
  then show ?case by simp
next
  case (Cons a pre)
  have "get_events_loop X sess ((a # pre) @ bad # post) events
        = get_events_loop X sess (pre @ bad # post) (events(a \<mapsto> mk a))"
    using Cons.prems by simp
  also have "\<dots> = (Inl e, (\<lambda>i. if i \<in> set pre then Some (mk i) else (events(a \<mapsto> mk a)) i))"
    using Cons.IH Cons.prems by simp
  also have "(\<lambda>i. if i \<in> set pre then Some (mk i) else (events(a \<mapsto> mk a)) i)
             = (\<lambda>i. if i \<in> set (a # pre) then Some (mk i) else events i)"
    by (rule ext) simp
  finally show ?case .
qed

lemma create_event_protocol_error:
  "check_session X sess = Inr u \<Longrightarrow> get_raw_attributes sess i = Inl ProtocolError
   \<Longrightarrow> create_event_from_id X sess i = Inl ManagerException"
  by (simp add: create_event_from_id_def rename_exception_def)

text \<open>
  Claim C1, as the code has it: when building the event of one id fails and the ids
  before it in the list succeeded, \<open>get_events\<close> ends with that failure (the
  ManagerException when the session raised a protocol error for the attributes); the
  store then holds the new events of the ids before it and is unchanged at every other
  id, so the ids after it are not stored.
\<close>

theorem get_events_aborts:
  assumes "check_session X sess = Inr ()"
      and "get_caseids sess = Inr (pre @ bad # post)"
      and "\<forall>i\<in>set pre. create_event_from_id X sess i = Inr (mk i)"
      and "create_event_from_id X sess bad = Inl e"
  shows "get_events X sess events
           = (Inl e, (\<lambda>i. if i \<in> set pre then Some (mk i) else events i))
         \<and> (get_raw_attributes sess bad = Inl ProtocolError \<longrightarrow> e = ManagerException)"
proof
  show "get_events X sess events
           = (Inl e, (\<lambda>i. if i \<in> set pre then Some (mk i) else events i))"
    using assms(1,2) get_events_loop_abort [OF assms(3,4)]
    by (simp add: get_events_def)
  show "get_raw_attributes sess bad = Inl ProtocolError \<longrightarrow> e = ManagerException"
    using create_event_protocol_error [OF assms(1), of bad] assms(4) by auto
qed

lemma example_create_1:
  "create_event_from_id example_externals example_session 1 = Inr example_event_1"
  by code_simp

lemma example_create_2:
  "create_event_from_id example_externals example_session 2 = Inl ManagerException"
  by code_simp

theorem get_events_aborts_witness:
  "get_events example_externals example_session Map.empty
     = (Inl ManagerException, (\<lambda>i. if i \<in> set [1] then Some example_event_1 else None))"
proof -
  have h1: "check_session example_externals example_session = Inr ()"
    by (simp add: example_externals_def)
  have h2: "get_caseids example_session = Inr ([1] @ 2 # [3])"
    by (simp add: example_session_def)
  have h3: "\<forall>i\<in>set [1]. create_event_from_id example_externals example_session i
              = Inr ((\<lambda>i. example_event_1) i)"
    using example_create_1 by simp
  from get_events_aborts [OF h1 h2 h3 example_create_2, of Map.empty] show ?thesis
    by simp
qed

text \<open>
  Claim C1 as stated has the failing id skipped and the rest stored: with ids 1, 2, 3 and
  a protocol error for the attributes of 2, \<open>get_events\<close> raises and the event of 3,
  which could be built, is not in the store.
\<close>

theorem get_events_skip_counterexample:
  "fst (get_events example_externals example_session Map.empty) = Inl ManagerException
   \<and> snd (get_events example_externals example_session Map.empty) 3 = None
   \<and> create_event_from_id example_externals example_session 3 = Inr example_event_3"
  by code_simp

text \<open>
  Claim C3 at a failing input: the session raises a protocol error for the state change
  of the stored event 1, and \<open>change_admin_state_for_id\<close> raises that ProtocolError, not
  a ManagerException.
\<close>

theorem change_admin_state_leaks_protocol_error:
  "fst (change_admin_state_for_id example_externals example_session 1 ''working'' example_events)
     = Inl ProtocolError"
  by code_simp

text \<open>
  Claim C8: when the session check passes, the event is in the store and the session
  answers the state change with \<open>False\<close>, \<open>change_admin_state_for_id\<close> returns
  \<open>None\<close>, raises nothing and leaves the store as it was.
\<close>

theorem change_admin_state_declined:
  assumes "check_session X sess = Inr ()"
      and "get_event X events event_id = Inr event"
      and "set_state sess (Event_id X event) (AdmState_value X admin_state) = Inr False"
  shows "change_admin_state_for_id X sess event_id admin_state events = (Inr None, events)"
  using assms by (simp add: change_admin_state_for_id_def set_admin_state_def)

theorem change_admin_state_declined_witness:
  "change_admin_state_for_id example_externals example_session 3 ''closed'' example_events
     = (Inr None, example_events)"
proof -
  have h1: "check_session example_externals example_session = Inr ()"
    by (simp add: example_externals_def)
  have h2: "get_event example_externals example_events 3 = Inr example_event_3"
    by (simp add: example_externals_def example_events_def)
  have h3: "set_state example_session (Event_id example_externals example_event_3)
              (AdmState_value example_externals ''closed'') = Inr False"
    by (simp add: example_externals_def example_session_def example_event_3_def)
  from change_admin_state_declined [OF h1 h2 h3] show ?thesis .
qed


section \<open>The poll step\<close>

text \<open>
  Claim C9: a notification for an id that is not among the cases and whose kind is not
  \<open>state\<close> makes \<open>poll\<close> return \<open>None\<close> with the cases, the selection and the
  requests to the session as they were; with the kind \<open>state\<close> the case is requested
  and, once the session answers, stored.
\<close>

theorem poll_unknown_id:
  "(cases st (update_id update) = None \<and> update_type update \<noteq> ''state''
      \<longrightarrow> poll session_case (Some update) st = (Inr None, st))
   \<and> (cases st (update_id update) = None \<and> update_type update = ''state''
        \<and> session_case (update_id update) = Inr c
      \<longrightarrow> poll session_case (Some update) st
          = (Inr (Some True),
             st\<lparr>fetched := fetched st @ [update_id update],
                cases := (cases st)(update_id update \<mapsto> c)\<rparr>))"
  by (simp add: poll_def refetch_def)

theorem poll_unknown_id_witness:
  "poll example_case (Some \<lparr>update_id = 5, update_type = ''attr'', update_case = None\<rparr>)
       example_dashboard
     = (Inr None, example_dashboard)
   \<and> poll example_case (Some \<lparr>update_id = 5, update_type = ''state'', update_case = None\<rparr>)
       example_dashboard
     = (Inr (Some True),
        example_dashboard\<lparr>fetched := fetched example_dashboard @ [5],
                          cases := (cases example_dashboard)(5 \<mapsto> ''case'')\<rparr>)"
proof -
  let ?a = "\<lparr>update_id = 5, update_type = ''attr'', update_case = None\<rparr>"
  let ?s = "\<lparr>update_id = 5, update_type = ''state'', update_case = None\<rparr>"
  have h1: "cases example_dashboard (update_id ?a) = None \<and> update_type ?a \<noteq> ''state''"
    by (simp add: example_dashboard_def)
  have h2: "cases example_dashboard (update_id ?s) = None \<and> update_type ?s = ''state''
      \<and> example_case (update_id ?s) = Inr ''case''"
    by (simp add: example_dashboard_def example_case_def)
  from poll_unknown_id [of example_dashboard ?a example_case] h1
  have c1: "poll example_case (Some ?a) example_dashboard = (Inr None, example_dashboard)"
    by blast
  from poll_unknown_id [of example_dashboard ?s example_case "''case''"] h2
  have c2: "poll example_case (Some ?s) example_dashboard
     = (Inr (Some True),
        example_dashboard\<lparr>fetched := fetched example_dashboard @ [update_id ?s],
                          cases := (cases example_dashboard)(update_id ?s \<mapsto> ''case'')\<rparr>)"
    by blast
  from c1 c2 show ?thesis by simp
qed

text \<open>
  Claim C2 at a failing input: the case 7 is known and selected and the \<open>scavenged\<close>
  notification for 7 carries no \<open>case\<close> field. \<open>poll\<close> returns \<open>True\<close>, 7 is no
  longer among the cases, and 7 is still selected.
\<close>

theorem poll_scavenged_keeps_selection:
  "fst (poll example_case
        (Some \<lparr>update_id = 7, update_type = ''scavenged'', update_case = None\<rparr>)
        example_dashboard) = Inr (Some True)
   \<and> cases (snd (poll example_case
        (Some \<lparr>update_id = 7, update_type = ''scavenged'', update_case = None\<rparr>)
        example_dashboard)) 7 = None
   \<and> 7 \<in> set (cases_selected (snd (poll example_case
        (Some \<lparr>update_id = 7, update_type = ''scavenged'', update_case = None\<rparr>)
        example_dashboard)))"
  by (simp add: poll_def example_dashboard_def)

end
